theory Spec2Isabelle
  imports Main "HOL-Library.Word"
begin

section \<open>The host interface seen by the loader shim\<close>

text \<open>
  The two shims (\<^verbatim>\<open>build/ferretdb-bw\<close> and \<^verbatim>\<open>build/ferretdb-extension\<close>) are straight-line C
  that only calls into the PostgreSQL host and the dynamic loader. A run is therefore
  modelled as the list of calls it makes, in order, together with the way the run ends.
  What the host and the dynamic loader answer is a parameter of the run (the record
  \<open>host\<close>): the shim cannot influence it, and every theorem quantifies over it.
\<close>

text \<open>\<^verbatim>\<open>Datum\<close> is the host's pointer-sized opaque word.\<close>

type_synonym Datum = "64 word"

text \<open>
  A non-null library handle and a non-null function pointer. A C pointer that may be
  \<^verbatim>\<open>NULL\<close> is an \<open>option\<close>, with \<open>None\<close> for \<^verbatim>\<open>NULL\<close>.
\<close>

type_synonym handle = nat
type_synonym fnptr = nat

datatype dlflag = RTLD_LAZY | RTLD_NOW | RTLD_GLOBAL | RTLD_LOCAL

text \<open>The two severities the shims pass to \<^verbatim>\<open>elog\<close>.\<close>

datatype elevel = DEBUG1 | LOG

record host =
  pkglib_path :: string
  dlopen :: "string \<Rightarrow> dlflag set \<Rightarrow> handle option"
  dlsym :: "handle option \<Rightarrow> string \<Rightarrow> fnptr option"
  entry_returns :: "fnptr \<Rightarrow> Datum \<Rightarrow> bool"
  dlclose_null_returns :: bool

text \<open>
  \<^verbatim>\<open>dlclose\<close> on a handle that \<^verbatim>\<open>dlopen\<close> gave returns to its caller. What it does with
  \<^verbatim>\<open>NULL\<close> is the platform's: it returns an error (\<open>dlclose_null_returns\<close>), or it reads
  through the null handle and the process is killed there, as on glibc.
\<close>

definition dlclose_returns :: "host \<Rightarrow> handle option \<Rightarrow> bool" where
  "dlclose_returns env h = (case h of Some v \<Rightarrow> True | None \<Rightarrow> dlclose_null_returns env)"

text \<open>
  The calls of a run. \<open>Elog\<close> carries the severity, the format string and its one
  \<^verbatim>\<open>%s\<close> argument; \<open>Dlsym\<close> and \<open>Dlclose\<close> carry the handle they are given, which is
  \<open>None\<close> when the shim passes \<^verbatim>\<open>NULL\<close>; \<open>Invoke\<close> is the call through the function
  pointer \<^verbatim>\<open>f\<close>, which is \<open>None\<close> when \<^verbatim>\<open>f\<close> is \<^verbatim>\<open>NULL\<close>.
\<close>

datatype event =
    UnblockSignals
  | Palloc nat
  | JoinPathComponents string string
  | Elog elevel string string
  | Dlopen string "dlflag set"
  | Pfree
  | Dlsym "handle option" string
  | Invoke "fnptr option" Datum
  | Dlclose "handle option"
  | ProcExit int

text \<open>
  How a run ends: \<^verbatim>\<open>proc_exit(code)\<close>; a call through a null function pointer, which is
  undefined behaviour in C; the entry point never returning to the shim; or the process
  killed inside \<^verbatim>\<open>dlclose\<close>, which was handed the null handle.
\<close>

datatype outcome =
    Exited int
  | Undefined_Null_Call
  | Entry_Never_Returned
  | Killed_In_Dlclose

section \<open>Path joining\<close>

definition IS_DIR_SEP :: "char \<Rightarrow> bool" where
  "IS_DIR_SEP c = (c = CHR ''/'')"

definition trim_trailing_separator :: "string \<Rightarrow> string" where
  "trim_trailing_separator s = rev (dropWhile IS_DIR_SEP (rev s))"

text \<open>
  Modelled from the spec: \<^verbatim>\<open>join_path_components\<close> is a function of the host (PostgreSQL's
  \<^verbatim>\<open>port/path.c\<close>), not of the files under \<^verbatim>\<open>src/\<close>. The spec calls it the host's canonical
  path-joining rule: the directory and the file name joined by one separator, with no
  double separator and with a trailing separator of the directory handled.
\<close>

definition join_path_components :: "string \<Rightarrow> string \<Rightarrow> string" where
  "join_path_components head tail = trim_trailing_separator head @ ''/'' @ tail"

section \<open>The loader: \<^verbatim>\<open>background_main\<close>\<close>

text \<open>\<^verbatim>\<open>static char *ferretdb_so = "ferretdb.so";\<close> (ferretdb-bw)\<close>

definition ferretdb_so :: string where
  "ferretdb_so = ''ferretdb.so''"

text \<open>\<^verbatim>\<open>static char *ferretdb_lib = "ferretdb.so";\<close> (ferretdb-extension)\<close>

definition ferretdb_lib :: string where
  "ferretdb_lib = ''ferretdb.so''"

text \<open>
  The format strings of the two \<^verbatim>\<open>elog\<close> calls. The quote characters inside them are
  written by their codes: \<open>0x27\<close> is the single quote, \<open>0x22\<close> the double quote.
\<close>

definition fmt_bw :: string where
  "fmt_bw = ''ferretdb_loader: loading '' @ [CHR 0x27] @ ''%s'' @ [CHR 0x27]"

definition fmt_ext :: string where
  "fmt_ext = ''ferretdb_loader: loading go shared lib '' @ [CHR 0x22] @ ''%s'' @ [CHR 0x22]"

text \<open>
  \<^verbatim>\<open>background_main\<close> of \<^verbatim>\<open>build/ferretdb-bw/ferretdb_loader/ferretdb_loader.c\<close>, one binding
  per statement. \<open>t\<close> is the list of calls made so far. The size handed to \<^verbatim>\<open>palloc\<close> is
  computed in \<^verbatim>\<open>size_t\<close>; \<^verbatim>\<open>pkglib_path\<close> is a string held in the host's memory, so the sum of
  its length and 13 does not wrap and is a natural number here. \<^verbatim>\<open>palloc\<close> and \<^verbatim>\<open>elog\<close>
  at these severities return to the caller. The results of \<^verbatim>\<open>dlopen\<close> and \<^verbatim>\<open>dlsym\<close> are
  used unchecked, as in the source: the lookup is made on whatever handle came back, and
  the call goes through whatever pointer came back, and \<^verbatim>\<open>dlclose\<close> is handed whatever handle
  came back.
\<close>

definition background_main_bw :: "host \<Rightarrow> Datum \<Rightarrow> event list \<times> outcome" where
  "background_main_bw env main_arg =
    (let t = [UnblockSignals];
         t = t @ [Palloc (length (pkglib_path env) + 1 + length ferretdb_so + 1)];
         path = join_path_components (pkglib_path env) ferretdb_so;
         t = t @ [JoinPathComponents (pkglib_path env) ferretdb_so];
         t = t @ [Elog LOG fmt_bw path];
         h = dlopen env path {RTLD_NOW, RTLD_GLOBAL};
         t = t @ [Dlopen path {RTLD_NOW, RTLD_GLOBAL}];
         t = t @ [Pfree];
         f = dlsym env h ''BackgroundWorkerMain'';
         t = t @ [Dlsym h ''BackgroundWorkerMain''];
         t = t @ [Invoke f main_arg]
     in case f of
          None \<Rightarrow> (t, Undefined_Null_Call)
        | Some g \<Rightarrow>
            if entry_returns env g main_arg
            then (if dlclose_returns env h
                  then (t @ [Dlclose h, ProcExit 0], Exited 0)
                  else (t @ [Dlclose h], Killed_In_Dlclose))
            else (t, Entry_Never_Returned))"

text \<open>
  \<^verbatim>\<open>background_main\<close> of \<^verbatim>\<open>build/ferretdb-extension/ferretdb_loader/ferretdb_loader.c\<close>.
\<close>

definition background_main_ext :: "host \<Rightarrow> Datum \<Rightarrow> event list \<times> outcome" where
  "background_main_ext env main_arg =
    (let t = [UnblockSignals];
         t = t @ [Palloc (length (pkglib_path env) + 1 + length ferretdb_lib + 1)];
         golib_path = join_path_components (pkglib_path env) ferretdb_lib;
         t = t @ [JoinPathComponents (pkglib_path env) ferretdb_lib];
         t = t @ [Elog DEBUG1 fmt_ext golib_path];
         handle = dlopen env golib_path {RTLD_NOW, RTLD_GLOBAL};
         t = t @ [Dlopen golib_path {RTLD_NOW, RTLD_GLOBAL}];
         t = t @ [Pfree];
         entrypt = dlsym env handle ''BackgroundWorkerMain'';
         t = t @ [Dlsym handle ''BackgroundWorkerMain''];
         t = t @ [Invoke entrypt main_arg]
     in case entrypt of
          None \<Rightarrow> (t, Undefined_Null_Call)
        | Some g \<Rightarrow>
            if entry_returns env g main_arg
            then (if dlclose_returns env handle
                  then (t @ [Dlclose handle, ProcExit 2], Exited 2)
                  else (t @ [Dlclose handle], Killed_In_Dlclose))
            else (t, Entry_Never_Returned))"

section \<open>Reading a run\<close>

fun is_unblock :: "event \<Rightarrow> bool" where
  "is_unblock UnblockSignals = True"
| "is_unblock _ = False"

fun is_palloc :: "event \<Rightarrow> bool" where
  "is_palloc (Palloc n) = True"
| "is_palloc _ = False"

fun is_join :: "event \<Rightarrow> bool" where
  "is_join (JoinPathComponents a b) = True"
| "is_join _ = False"

fun is_elog :: "event \<Rightarrow> bool" where
  "is_elog (Elog l f a) = True"
| "is_elog _ = False"

fun is_dlopen :: "event \<Rightarrow> bool" where
  "is_dlopen (Dlopen p fl) = True"
| "is_dlopen _ = False"

fun is_pfree :: "event \<Rightarrow> bool" where
  "is_pfree Pfree = True"
| "is_pfree _ = False"

fun is_invoke :: "event \<Rightarrow> bool" where
  "is_invoke (Invoke f a) = True"
| "is_invoke _ = False"

fun is_dlclose :: "event \<Rightarrow> bool" where
  "is_dlclose (Dlclose h) = True"
| "is_dlclose _ = False"

fun is_exit :: "event \<Rightarrow> bool" where
  "is_exit (ProcExit c) = True"
| "is_exit _ = False"

text \<open>
  \<open>precedes P Q t\<close>: reading \<open>t\<close> from its start, a \<open>P\<close> call is met before any \<open>Q\<close>
  call; no \<open>Q\<close> call of the run comes ahead of the first \<open>P\<close> call.
\<close>

fun precedes :: "(event \<Rightarrow> bool) \<Rightarrow> (event \<Rightarrow> bool) \<Rightarrow> event list \<Rightarrow> bool" where
  "precedes P Q [] = True"
| "precedes P Q (e # t) = (if P e then True else if Q e then False else precedes P Q t)"

text \<open>
  Hosts for concrete runs: the library directory of the spec's example scenarios, on a
  platform whose \<^verbatim>\<open>dlclose\<close> does not survive the null handle.
\<close>

definition good_host :: host where
  "good_host =
    \<lparr> pkglib_path = ''/opt/pg/lib'',
      dlopen = (\<lambda>p fl. if p = ''/opt/pg/lib/ferretdb.so'' then Some 1 else None),
      dlsym = (\<lambda>h s. if h = Some 1 \<and> s = ''BackgroundWorkerMain'' then Some 7 else None),
      entry_returns = (\<lambda>f a. True),
      dlclose_null_returns = False \<rparr>"

definition missing_file_host :: host where
  "missing_file_host =
    \<lparr> pkglib_path = ''/opt/pg/lib'',
      dlopen = (\<lambda>p fl. None),
      dlsym = (\<lambda>h s. None),
      entry_returns = (\<lambda>f a. True),
      dlclose_null_returns = False \<rparr>"

definition missing_symbol_host :: host where
  "missing_symbol_host =
    \<lparr> pkglib_path = ''/opt/pg/lib'',
      dlopen = (\<lambda>p fl. if p = ''/opt/pg/lib/ferretdb.so'' then Some 1 else None),
      dlsym = (\<lambda>h s. None),
      entry_returns = (\<lambda>f a. True),
      dlclose_null_returns = False \<rparr>"

text \<open>
  A host on which the library does not load but a lookup on the null handle still finds the
  symbol: on glibc \<^verbatim>\<open>RTLD_DEFAULT\<close> is the null pointer, so \<^verbatim>\<open>dlsym(NULL, name)\<close> searches
  the objects already loaded into the process. On the same platform \<^verbatim>\<open>dlclose(NULL)\<close> kills
  the process.
\<close>

definition default_scope_host :: host where
  "default_scope_host =
    \<lparr> pkglib_path = ''/opt/pg/lib'',
      dlopen = (\<lambda>p fl. None),
      dlsym = (\<lambda>h s. if h = None \<and> s = ''BackgroundWorkerMain'' then Some 9 else None),
      entry_returns = (\<lambda>f a. True),
      dlclose_null_returns = False \<rparr>"

text \<open>
  The line an \<^verbatim>\<open>elog\<close> call writes: its format with the \<^verbatim>\<open>%s\<close> conversion replaced by the
  argument, every other character copied. (The formats of the source hold one \<^verbatim>\<open>%s\<close> and
  no other conversion, and the call has one argument.)
\<close>

fun format_s :: "string \<Rightarrow> string \<Rightarrow> string" where
  "format_s [] a = []"
| "format_s [c] a = [c]"
| "format_s (c # d # cs) a =
     (if c = CHR ''%'' \<and> d = CHR ''s'' then a @ format_s cs a else c # format_s (d # cs) a)"

text \<open>The lines of the \<^verbatim>\<open>elog\<close> calls of a run, in order.\<close>

fun log_lines :: "event list \<Rightarrow> string list" where
  "log_lines [] = []"
| "log_lines (Elog lvl fmt a # t) = format_s fmt a # log_lines t"
| "log_lines (e # t) = log_lines t"

text \<open>The flags of the \<^verbatim>\<open>dlopen\<close> calls of a run, in order.\<close>

fun dlopen_flags :: "event list \<Rightarrow> dlflag set list" where
  "dlopen_flags [] = []"
| "dlopen_flags (Dlopen p fl # t) = fl # dlopen_flags t"
| "dlopen_flags (e # t) = dlopen_flags t"

text \<open>Two separators in a row somewhere in a path.\<close>

fun double_sep :: "string \<Rightarrow> bool" where
  "double_sep [] = False"
| "double_sep [a] = False"
| "double_sep (a # b # cs) =
     (if IS_DIR_SEP a \<and> IS_DIR_SEP b then True else double_sep (b # cs))"

subsection \<open>Comparing the two builds\<close>

text \<open>
  A run with the exit status and the log severity blanked out: what is left is what the
  two builds are compared on when only these two are allowed to differ.
\<close>

fun without_exit_and_severity :: "event \<Rightarrow> event" where
  "without_exit_and_severity (Elog lvl fmt a) = Elog LOG fmt a"
| "without_exit_and_severity (ProcExit c) = ProcExit 0"
| "without_exit_and_severity e = e"

fun outcome_without_exit :: "outcome \<Rightarrow> outcome" where
  "outcome_without_exit (Exited c) = Exited 0"
| "outcome_without_exit out = out"

definition modulo_exit_and_severity :: "event list \<times> outcome \<Rightarrow> event list \<times> outcome" where
  "modulo_exit_and_severity r =
     (map without_exit_and_severity (fst r), outcome_without_exit (snd r))"

text \<open>The same with the wording of the log line (its format string) blanked out as well.\<close>

fun without_exit_severity_and_wording :: "event \<Rightarrow> event" where
  "without_exit_severity_and_wording (Elog lvl fmt a) = Elog LOG [] a"
| "without_exit_severity_and_wording (ProcExit c) = ProcExit 0"
| "without_exit_severity_and_wording e = e"

definition modulo_exit_severity_and_wording ::
    "event list \<times> outcome \<Rightarrow> event list \<times> outcome" where
  "modulo_exit_severity_and_wording r =
     (map without_exit_severity_and_wording (fst r), outcome_without_exit (snd r))"

section \<open>The registrar: \<^verbatim>\<open>_PG_init\<close>\<close>

text \<open>
  The worker descriptor of the host's \<^verbatim>\<open>postmaster/bgworker.h\<close>. The header is not among
  the sources; its names are kept symbolic: the flag word is the set of flags it holds, the
  restart time is \<^verbatim>\<open>BGW_NEVER_RESTART\<close> or a number of seconds, and the buffer size
  \<^verbatim>\<open>BGW_MAXLEN\<close> is a parameter of \<^verbatim>\<open>_PG_init\<close>.
\<close>

datatype bgw_flag = BGWORKER_SHMEM_ACCESS | BGWORKER_BACKEND_DATABASE_CONNECTION

datatype BgWorkerStartTime =
    BgWorkerStart_PostmasterStart
  | BgWorkerStart_ConsistentState
  | BgWorkerStart_RecoveryFinished

datatype bgw_restart = BGW_NEVER_RESTART | Restart_After nat

record BackgroundWorker =
  bgw_name :: string
  bgw_type :: string
  bgw_flags :: "bgw_flag set"
  bgw_start_time :: BgWorkerStartTime
  bgw_restart_time :: bgw_restart
  bgw_library_name :: string
  bgw_function_name :: string
  bgw_main_arg :: Datum
  bgw_extra :: string
  bgw_notify_pid :: int

text \<open>\<^verbatim>\<open>MemSet(&worker, 0, sizeof(BackgroundWorker))\<close>: every field zero.\<close>

definition zeroed_worker :: BackgroundWorker where
  "zeroed_worker =
    \<lparr> bgw_name = [], bgw_type = [], bgw_flags = {},
      bgw_start_time = BgWorkerStart_PostmasterStart,
      bgw_restart_time = Restart_After 0,
      bgw_library_name = [], bgw_function_name = [],
      bgw_main_arg = 0, bgw_extra = [], bgw_notify_pid = 0 \<rparr>"

text \<open>
  \<^verbatim>\<open>snprintf(buf, size, "literal")\<close> with a format free of conversions: at most
  \<open>n - 1\<close> characters of the literal are stored, \<open>n\<close> being the size given.
\<close>

definition snprintf :: "nat \<Rightarrow> string \<Rightarrow> string" where
  "snprintf n lit = take (n - 1) lit"

text \<open>
  \<^verbatim>\<open>_PG_init\<close> of \<^verbatim>\<open>build/ferretdb-bw\<close>. \<open>submitted\<close> are the descriptors handed to
  \<^verbatim>\<open>RegisterBackgroundWorker\<close> so far; the call appends one.
\<close>

definition PG_init_bw :: "nat \<Rightarrow> BackgroundWorker list \<Rightarrow> BackgroundWorker list" where
  "PG_init_bw BGW_MAXLEN submitted =
    (let worker = zeroed_worker;
         worker = worker\<lparr>bgw_name := snprintf BGW_MAXLEN ''FerretDBLoader''\<rparr>;
         worker = worker\<lparr>bgw_flags := {BGWORKER_SHMEM_ACCESS}\<rparr>;
         worker = worker\<lparr>bgw_start_time := BgWorkerStart_RecoveryFinished\<rparr>;
         worker = worker\<lparr>bgw_restart_time := BGW_NEVER_RESTART\<rparr>;
         worker = worker\<lparr>bgw_library_name := snprintf BGW_MAXLEN ''ferretdb_loader''\<rparr>;
         worker = worker\<lparr>bgw_function_name := snprintf BGW_MAXLEN ''background_main''\<rparr>
     in submitted @ [worker])"

text \<open>\<^verbatim>\<open>_PG_init\<close> of \<^verbatim>\<open>build/ferretdb-extension\<close>.\<close>

definition PG_init_ext :: "nat \<Rightarrow> BackgroundWorker list \<Rightarrow> BackgroundWorker list" where
  "PG_init_ext BGW_MAXLEN submitted =
    (let worker = zeroed_worker;
         worker = worker\<lparr>bgw_name := snprintf BGW_MAXLEN ''FerretDBLoader''\<rparr>;
         worker = worker\<lparr>bgw_flags := {BGWORKER_SHMEM_ACCESS}\<rparr>;
         worker = worker\<lparr>bgw_start_time := BgWorkerStart_RecoveryFinished\<rparr>;
         worker = worker\<lparr>bgw_restart_time := BGW_NEVER_RESTART\<rparr>;
         worker = worker\<lparr>bgw_library_name := snprintf BGW_MAXLEN ''ferretdb_loader''\<rparr>;
         worker = worker\<lparr>bgw_function_name := snprintf BGW_MAXLEN ''background_main''\<rparr>
     in submitted @ [worker])"

section \<open>Reading \<open>precedes\<close>\<close>

lemma dlclose_returns_Some [simp]: "dlclose_returns env (Some h)"
  by (simp add: dlclose_returns_def)

lemma precedes_characterisation:
  "precedes P Q t \<longleftrightarrow> (\<forall>i < length t. Q (t ! i) \<longrightarrow> (\<exists>j \<le> i. P (t ! j)))"
proof (induction t)
  case Nil
  show ?case by simp
next
  case (Cons e t)
  show ?case
  proof (cases "P e")
    case True
    then show ?thesis by auto
  next
    case False
    note notP = this
    show ?thesis
    proof (cases "Q e")
      case True
      with notP show ?thesis by auto
    next
      case False
      have "(\<forall>i < length (e # t). Q ((e # t) ! i) \<longrightarrow> (\<exists>j \<le> i. P ((e # t) ! j)))
            \<longleftrightarrow> (\<forall>i < length t. Q (t ! i) \<longrightarrow> (\<exists>j \<le> i. P (t ! j)))"
        (is "?L \<longleftrightarrow> ?R")
      proof
        assume L: ?L
        show ?R
        proof (intro allI impI)
          fix i assume i: "i < length t" and q: "Q (t ! i)"
          from L i q obtain j where j: "j \<le> Suc i" "P ((e # t) ! j)"
            by fastforce
          with notP obtain k where "j = Suc k" by (cases j) auto
          with j show "\<exists>j \<le> i. P (t ! j)" by auto
        qed
      next
        assume R: ?R
        show ?L
        proof (intro allI impI)
          fix i assume i: "i < length (e # t)" and q: "Q ((e # t) ! i)"
          with False obtain k where k: "i = Suc k" by (cases i) auto
          with i q R obtain j where "j \<le> k" "P (t ! j)" by auto
          with k show "\<exists>j \<le> i. P ((e # t) ! j)"
            by (intro exI [of _ "Suc j"]) simp
        qed
      qed
      with notP False Cons.IH show ?thesis by simp
    qed
  qed
qed

section \<open>Signal unblocking comes first\<close>

text \<open>
  C5. In every run of the loader, of either build, the first call is the signal
  unblocking; it is made before the path is resolved, before the log line and before the
  library is opened, and every run does go on to open the library (exactly once).
\<close>

theorem unblock_signals_before_load:
  "(\<exists>rest. fst (background_main_bw env main_arg) = UnblockSignals # rest)
   \<and> precedes is_unblock is_join (fst (background_main_bw env main_arg))
   \<and> precedes is_unblock is_elog (fst (background_main_bw env main_arg))
   \<and> precedes is_unblock is_dlopen (fst (background_main_bw env main_arg))
   \<and> length (filter is_dlopen (fst (background_main_bw env main_arg))) = 1
   \<and> (\<exists>rest. fst (background_main_ext env main_arg) = UnblockSignals # rest)
   \<and> precedes is_unblock is_join (fst (background_main_ext env main_arg))
   \<and> precedes is_unblock is_elog (fst (background_main_ext env main_arg))
   \<and> precedes is_unblock is_dlopen (fst (background_main_ext env main_arg))
   \<and> length (filter is_dlopen (fst (background_main_ext env main_arg))) = 1"
  by (simp add: background_main_bw_def background_main_ext_def Let_def
      split: option.split)

theorem unblock_signals_before_load_witness:
  "fst (background_main_bw missing_file_host 0) ! 0 = UnblockSignals
   \<and> precedes is_unblock is_dlopen (fst (background_main_bw missing_file_host 0))
   \<and> length (filter is_dlopen (fst (background_main_bw missing_file_host 0))) = 1
   \<and> fst (background_main_ext missing_file_host 0) ! 0 = UnblockSignals
   \<and> precedes is_unblock is_dlopen (fst (background_main_ext missing_file_host 0))
   \<and> length (filter is_dlopen (fst (background_main_ext missing_file_host 0))) = 1"
  using unblock_signals_before_load [of missing_file_host 0]
  by auto

section \<open>The diagnostic line\<close>

lemma format_s_fmt_bw:
  "format_s fmt_bw p = ''ferretdb_loader: loading '' @ [CHR 0x27] @ p @ [CHR 0x27]"
  by (simp add: fmt_bw_def)

lemma format_s_fmt_ext:
  "format_s fmt_ext p = ''ferretdb_loader: loading go shared lib '' @ [CHR 0x22] @ p @ [CHR 0x22]"
  by (simp add: fmt_ext_def)

text \<open>
  C6. Every run of the loader, of either build, makes exactly one \<^verbatim>\<open>elog\<close> call; the line
  it writes is the build's fixed wording around the resolved library path, the very path
  handed to \<^verbatim>\<open>dlopen\<close>; and the call comes before the \<^verbatim>\<open>dlopen\<close> call. Nothing is assumed
  of the host, so this covers the runs in which the load then fails.
\<close>

theorem log_line_before_load:
  "filter is_elog (fst (background_main_bw env main_arg)) =
     [Elog LOG fmt_bw (join_path_components (pkglib_path env) ferretdb_so)]
   \<and> log_lines (fst (background_main_bw env main_arg)) =
     [''ferretdb_loader: loading '' @ [CHR 0x27]
        @ join_path_components (pkglib_path env) ferretdb_so @ [CHR 0x27]]
   \<and> filter is_dlopen (fst (background_main_bw env main_arg)) =
     [Dlopen (join_path_components (pkglib_path env) ferretdb_so) {RTLD_NOW, RTLD_GLOBAL}]
   \<and> precedes is_elog is_dlopen (fst (background_main_bw env main_arg))
   \<and> filter is_elog (fst (background_main_ext env main_arg)) =
     [Elog DEBUG1 fmt_ext (join_path_components (pkglib_path env) ferretdb_lib)]
   \<and> log_lines (fst (background_main_ext env main_arg)) =
     [''ferretdb_loader: loading go shared lib '' @ [CHR 0x22]
        @ join_path_components (pkglib_path env) ferretdb_lib @ [CHR 0x22]]
   \<and> filter is_dlopen (fst (background_main_ext env main_arg)) =
     [Dlopen (join_path_components (pkglib_path env) ferretdb_lib) {RTLD_NOW, RTLD_GLOBAL}]
   \<and> precedes is_elog is_dlopen (fst (background_main_ext env main_arg))"
proof -
  have bw: "log_lines (fst (background_main_bw env main_arg)) =
      [format_s fmt_bw (join_path_components (pkglib_path env) ferretdb_so)]"
    by (simp add: background_main_bw_def Let_def split: option.split)
  have ext: "log_lines (fst (background_main_ext env main_arg)) =
      [format_s fmt_ext (join_path_components (pkglib_path env) ferretdb_lib)]"
    by (simp add: background_main_ext_def Let_def split: option.split)
  have calls:
    "filter is_elog (fst (background_main_bw env main_arg)) =
       [Elog LOG fmt_bw (join_path_components (pkglib_path env) ferretdb_so)]
     \<and> filter is_dlopen (fst (background_main_bw env main_arg)) =
       [Dlopen (join_path_components (pkglib_path env) ferretdb_so) {RTLD_NOW, RTLD_GLOBAL}]
     \<and> precedes is_elog is_dlopen (fst (background_main_bw env main_arg))
     \<and> filter is_elog (fst (background_main_ext env main_arg)) =
       [Elog DEBUG1 fmt_ext (join_path_components (pkglib_path env) ferretdb_lib)]
     \<and> filter is_dlopen (fst (background_main_ext env main_arg)) =
       [Dlopen (join_path_components (pkglib_path env) ferretdb_lib) {RTLD_NOW, RTLD_GLOBAL}]
     \<and> precedes is_elog is_dlopen (fst (background_main_ext env main_arg))"
    by (simp add: background_main_bw_def background_main_ext_def Let_def
        split: option.split)
  from bw ext calls show ?thesis
    by (simp add: format_s_fmt_bw format_s_fmt_ext)
qed

theorem log_line_before_load_witness:
  "dlopen missing_file_host ''/opt/pg/lib/ferretdb.so'' {RTLD_NOW, RTLD_GLOBAL} = None
   \<and> log_lines (fst (background_main_bw missing_file_host 0)) =
     [''ferretdb_loader: loading '' @ [CHR 0x27] @ ''/opt/pg/lib/ferretdb.so'' @ [CHR 0x27]]
   \<and> precedes is_elog is_dlopen (fst (background_main_bw missing_file_host 0))
   \<and> log_lines (fst (background_main_ext missing_file_host 0)) =
     [''ferretdb_loader: loading go shared lib '' @ [CHR 0x22]
        @ ''/opt/pg/lib/ferretdb.so'' @ [CHR 0x22]]
   \<and> precedes is_elog is_dlopen (fst (background_main_ext missing_file_host 0))"
  using log_line_before_load [of missing_file_host 0]
  by (simp add: missing_file_host_def join_path_components_def trim_trailing_separator_def
      IS_DIR_SEP_def ferretdb_so_def ferretdb_lib_def)

section \<open>The resolved locator\<close>

lemma trim_not_trailing:
  "trim_trailing_separator s = [] \<or> \<not> IS_DIR_SEP (last (trim_trailing_separator s))"
proof (cases "dropWhile IS_DIR_SEP (rev s)")
  case Nil
  then show ?thesis by (simp add: trim_trailing_separator_def)
next
  case (Cons c cs)
  then have "\<not> IS_DIR_SEP c"
    by (metis hd_dropWhile list.sel(1) list.distinct(1))
  with Cons show ?thesis by (simp add: trim_trailing_separator_def)
qed

lemma double_sep_append:
  "double_sep (xs @ ys) \<longleftrightarrow>
     double_sep xs \<or> double_sep ys
     \<or> (xs \<noteq> [] \<and> ys \<noteq> [] \<and> IS_DIR_SEP (last xs) \<and> IS_DIR_SEP (hd ys))"
proof (induction xs rule: double_sep.induct)
  case 1
  show ?case by simp
next
  case (2 a)
  show ?case by (cases ys) auto
next
  case (3 a b cs)
  then show ?case by auto
qed

lemma length_trim: "length (trim_trailing_separator s) \<le> length s"
  by (simp add: trim_trailing_separator_def) (metis length_dropWhile_le length_rev)

lemma trim_append_sep: "trim_trailing_separator (s @ ''/'') = trim_trailing_separator s"
  by (simp add: trim_trailing_separator_def IS_DIR_SEP_def)

lemma double_sep_trim:
  assumes "double_sep (trim_trailing_separator s)"
  shows "double_sep s"
proof -
  have "s = trim_trailing_separator s @ rev (takeWhile IS_DIR_SEP (rev s))"
    unfolding trim_trailing_separator_def
    by (metis rev_append rev_rev_ident takeWhile_dropWhile_id)
  with assms show ?thesis
    by (metis double_sep_append)
qed

lemma join_double_sep:
  "double_sep (join_path_components D ''ferretdb.so'') = double_sep (trim_trailing_separator D)"
  using trim_not_trailing [of D]
  by (auto simp: join_path_components_def double_sep_append IS_DIR_SEP_def)

text \<open>
  C7. For every library directory \<open>D\<close> of the host (\<open>pkglib_path env\<close>), a run of the loader, of either build,
  calls the path join exactly once, on \<open>D\<close> and \<open>ferretdb.so\<close>, and opens exactly the
  joined path. The joined path is \<open>D\<close> without its trailing separators, one separator,
  and the file name: a trailing separator of \<open>D\<close> changes nothing, and a \<open>D\<close> free of
  double separators gives a path free of them.
\<close>

theorem locator_is_canonical_join:
  "filter is_join (fst (background_main_bw env main_arg)) =
     [JoinPathComponents (pkglib_path env) ''ferretdb.so'']
   \<and> filter is_dlopen (fst (background_main_bw env main_arg)) =
     [Dlopen (join_path_components (pkglib_path env) ''ferretdb.so'') {RTLD_NOW, RTLD_GLOBAL}]
   \<and> filter is_join (fst (background_main_ext env main_arg)) =
     [JoinPathComponents (pkglib_path env) ''ferretdb.so'']
   \<and> filter is_dlopen (fst (background_main_ext env main_arg)) =
     [Dlopen (join_path_components (pkglib_path env) ''ferretdb.so'') {RTLD_NOW, RTLD_GLOBAL}]
   \<and> join_path_components (pkglib_path env) ''ferretdb.so'' =
     trim_trailing_separator (pkglib_path env) @ ''/ferretdb.so''
   \<and> join_path_components (pkglib_path env @ ''/'') ''ferretdb.so'' =
     join_path_components (pkglib_path env) ''ferretdb.so''
   \<and> (\<not> double_sep (pkglib_path env) \<longrightarrow>
        \<not> double_sep (join_path_components (pkglib_path env) ''ferretdb.so''))"
proof -
  let ?D = "pkglib_path env"
  have clean: "\<not> double_sep ?D \<longrightarrow> \<not> double_sep (join_path_components ?D ''ferretdb.so'')"
    using double_sep_trim [of ?D] by (auto simp: join_double_sep)
  have trailing:
    "join_path_components (?D @ ''/'') ''ferretdb.so'' = join_path_components ?D ''ferretdb.so''"
    by (simp add: join_path_components_def trim_append_sep)
  have shape:
    "join_path_components ?D ''ferretdb.so'' = trim_trailing_separator ?D @ ''/ferretdb.so''"
    by (simp add: join_path_components_def)
  show ?thesis
    using clean trailing shape
    by (simp add: background_main_bw_def background_main_ext_def Let_def
        ferretdb_so_def ferretdb_lib_def split: option.split)
qed

theorem locator_is_canonical_join_witness:
  "\<not> double_sep ''/opt/pg/lib/''
   \<and> filter is_dlopen (fst (background_main_bw (good_host\<lparr>pkglib_path := ''/opt/pg/lib/''\<rparr>) 0)) =
     [Dlopen ''/opt/pg/lib/ferretdb.so'' {RTLD_NOW, RTLD_GLOBAL}]
   \<and> filter is_dlopen (fst (background_main_ext (good_host\<lparr>pkglib_path := ''/opt/pg/lib/''\<rparr>) 0)) =
     [Dlopen ''/opt/pg/lib/ferretdb.so'' {RTLD_NOW, RTLD_GLOBAL}]
   \<and> join_path_components ''/opt/pg/lib/'' ''ferretdb.so'' = ''/opt/pg/lib/ferretdb.so''
   \<and> join_path_components ''/opt/pg/lib'' ''ferretdb.so'' = ''/opt/pg/lib/ferretdb.so''
   \<and> join_path_components ''/opt/pg/lib'' ''ferretdb.so'' \<noteq> ''/opt/pg/lib'' @ ''ferretdb.so''
   \<and> \<not> double_sep (join_path_components ''/opt/pg/lib/'' ''ferretdb.so'')"
proof -
  have clean: "\<not> double_sep ''/opt/pg/lib/''"
    by (simp add: IS_DIR_SEP_def)
  have trimmed: "trim_trailing_separator ''/opt/pg/lib/'' = ''/opt/pg/lib''"
    by (simp add: trim_trailing_separator_def IS_DIR_SEP_def)
  have trimmed': "trim_trailing_separator ''/opt/pg/lib'' = ''/opt/pg/lib''"
    by (simp add: trim_trailing_separator_def IS_DIR_SEP_def)
  show ?thesis
    using clean trimmed trimmed'
      locator_is_canonical_join [of "good_host\<lparr>pkglib_path := ''/opt/pg/lib/''\<rparr>" 0]
    by (simp add: good_host_def join_path_components_def)
qed

section \<open>The flags of the load\<close>

text \<open>
  C8. Every run of the loader, of either build, calls \<^verbatim>\<open>dlopen\<close> exactly once, and the flags
  of that call hold \<^verbatim>\<open>RTLD_NOW\<close> (immediate symbol resolution) and \<^verbatim>\<open>RTLD_GLOBAL\<close> (global
  symbol visibility), and not \<^verbatim>\<open>RTLD_LAZY\<close>.
\<close>

theorem load_is_eager_and_global:
  "(\<exists>fl. dlopen_flags (fst (background_main_bw env main_arg)) = [fl]
       \<and> RTLD_NOW \<in> fl \<and> RTLD_GLOBAL \<in> fl \<and> RTLD_LAZY \<notin> fl)
   \<and> (\<exists>fl. dlopen_flags (fst (background_main_ext env main_arg)) = [fl]
       \<and> RTLD_NOW \<in> fl \<and> RTLD_GLOBAL \<in> fl \<and> RTLD_LAZY \<notin> fl)"
  by (simp add: background_main_bw_def background_main_ext_def Let_def
      split: option.split)

theorem load_is_eager_and_global_witness:
  "dlopen_flags (fst (background_main_bw good_host 0)) = [{RTLD_NOW, RTLD_GLOBAL}]
   \<and> dlopen_flags (fst (background_main_ext good_host 0)) = [{RTLD_NOW, RTLD_GLOBAL}]"
proof -
  have bw: "dlopen_flags (fst (background_main_bw good_host 0)) = [{RTLD_NOW, RTLD_GLOBAL}]"
    by (simp add: background_main_bw_def Let_def split: option.split)
  have ext: "dlopen_flags (fst (background_main_ext good_host 0)) = [{RTLD_NOW, RTLD_GLOBAL}]"
    by (simp add: background_main_ext_def Let_def split: option.split)
  from load_is_eager_and_global [of good_host 0] bw ext show ?thesis
    by simp
qed

section \<open>The path buffer\<close>

text \<open>
  C10. For every library directory of the host, a run of the loader, of either build,
  allocates one buffer, of size length of the directory + 1 + length of \<open>ferretdb.so\<close> + 1;
  the joined path with its terminator fits into that size; the join writes into the buffer
  after it is allocated and before it is freed; and the buffer is freed exactly once, before
  the call through the entry pointer.
\<close>

theorem path_buffer_fits_and_is_freed_once:
  "filter is_palloc (fst (background_main_bw env main_arg)) =
     [Palloc (length (pkglib_path env) + 1 + length ''ferretdb.so'' + 1)]
   \<and> length (join_path_components (pkglib_path env) ferretdb_so) + 1
       \<le> length (pkglib_path env) + 1 + length ''ferretdb.so'' + 1
   \<and> precedes is_palloc is_join (fst (background_main_bw env main_arg))
   \<and> precedes is_join is_pfree (fst (background_main_bw env main_arg))
   \<and> filter is_pfree (fst (background_main_bw env main_arg)) = [Pfree]
   \<and> precedes is_pfree is_invoke (fst (background_main_bw env main_arg))
   \<and> filter is_palloc (fst (background_main_ext env main_arg)) =
     [Palloc (length (pkglib_path env) + 1 + length ''ferretdb.so'' + 1)]
   \<and> length (join_path_components (pkglib_path env) ferretdb_lib) + 1
       \<le> length (pkglib_path env) + 1 + length ''ferretdb.so'' + 1
   \<and> precedes is_palloc is_join (fst (background_main_ext env main_arg))
   \<and> precedes is_join is_pfree (fst (background_main_ext env main_arg))
   \<and> filter is_pfree (fst (background_main_ext env main_arg)) = [Pfree]
   \<and> precedes is_pfree is_invoke (fst (background_main_ext env main_arg))"
proof -
  have fits: "length (join_path_components (pkglib_path env) ''ferretdb.so'') + 1
      \<le> length (pkglib_path env) + 1 + length ''ferretdb.so'' + 1"
    using length_trim [of "pkglib_path env"] by (simp add: join_path_components_def)
  then show ?thesis
    by (simp add: background_main_bw_def background_main_ext_def Let_def
        ferretdb_so_def ferretdb_lib_def split: option.split)
qed

theorem path_buffer_fits_and_is_freed_once_witness:
  "filter is_palloc (fst (background_main_bw good_host 0)) = [Palloc 24]
   \<and> length (join_path_components ''/opt/pg/lib'' ''ferretdb.so'') + 1 = 24
   \<and> filter is_pfree (fst (background_main_bw good_host 0)) = [Pfree]
   \<and> precedes is_pfree is_invoke (fst (background_main_bw good_host 0))
   \<and> filter is_palloc (fst (background_main_ext good_host 0)) = [Palloc 24]
   \<and> filter is_pfree (fst (background_main_ext good_host 0)) = [Pfree]
   \<and> precedes is_pfree is_invoke (fst (background_main_ext good_host 0))"
proof -
  have len: "length (join_path_components ''/opt/pg/lib'' ''ferretdb.so'') + 1 = 24"
    by (simp add: join_path_components_def trim_trailing_separator_def IS_DIR_SEP_def)
  have dir: "pkglib_path good_host = ''/opt/pg/lib''"
    by (simp add: good_host_def)
  from path_buffer_fits_and_is_freed_once [of good_host 0] len dir show ?thesis
    by simp
qed

section \<open>The successful run\<close>

text \<open>
  C3. When the library loads (\<^verbatim>\<open>dlopen\<close> gives a handle \<open>h\<close>) and exports the entry symbol
  (\<^verbatim>\<open>dlsym\<close> on \<open>h\<close> gives \<open>f\<close>), a run of the loader, of either build, calls through
  exactly one function pointer, \<open>f\<close>, with exactly the start argument it was given. When
  that call returns, the run closes \<open>h\<close>, exactly once and after the call, and then ends in
  \<^verbatim>\<open>proc_exit\<close>, its last call.
\<close>

theorem entry_invoked_once_then_closed:
  assumes "dlopen env (join_path_components (pkglib_path env) ''ferretdb.so'')
             {RTLD_NOW, RTLD_GLOBAL} = Some h"
    and "dlsym env (Some h) ''BackgroundWorkerMain'' = Some f"
  shows
  "filter is_invoke (fst (background_main_bw env main_arg)) = [Invoke (Some f) main_arg]
   \<and> filter is_invoke (fst (background_main_ext env main_arg)) = [Invoke (Some f) main_arg]
   \<and> (entry_returns env f main_arg \<longrightarrow>
        filter is_dlclose (fst (background_main_bw env main_arg)) = [Dlclose (Some h)]
        \<and> precedes is_invoke is_dlclose (fst (background_main_bw env main_arg))
        \<and> precedes is_dlclose is_exit (fst (background_main_bw env main_arg))
        \<and> last (fst (background_main_bw env main_arg)) = ProcExit 0
        \<and> snd (background_main_bw env main_arg) = Exited 0
        \<and> filter is_dlclose (fst (background_main_ext env main_arg)) = [Dlclose (Some h)]
        \<and> precedes is_invoke is_dlclose (fst (background_main_ext env main_arg))
        \<and> precedes is_dlclose is_exit (fst (background_main_ext env main_arg))
        \<and> last (fst (background_main_ext env main_arg)) = ProcExit 2
        \<and> snd (background_main_ext env main_arg) = Exited 2)"
  using assms
  by (simp add: background_main_bw_def background_main_ext_def Let_def
      ferretdb_so_def ferretdb_lib_def)

theorem entry_invoked_once_then_closed_witness:
  "dlopen good_host (join_path_components (pkglib_path good_host) ''ferretdb.so'')
     {RTLD_NOW, RTLD_GLOBAL} = Some 1
   \<and> dlsym good_host (Some 1) ''BackgroundWorkerMain'' = Some 7
   \<and> entry_returns good_host 7 5
   \<and> filter is_invoke (fst (background_main_bw good_host 5)) = [Invoke (Some 7) 5]
   \<and> filter is_dlclose (fst (background_main_bw good_host 5)) = [Dlclose (Some 1)]
   \<and> snd (background_main_bw good_host 5) = Exited 0
   \<and> filter is_invoke (fst (background_main_ext good_host 5)) = [Invoke (Some 7) 5]
   \<and> filter is_dlclose (fst (background_main_ext good_host 5)) = [Dlclose (Some 1)]
   \<and> snd (background_main_ext good_host 5) = Exited 2"
proof -
  have loads: "dlopen good_host (join_path_components (pkglib_path good_host) ''ferretdb.so'')
      {RTLD_NOW, RTLD_GLOBAL} = Some 1"
    by (simp add: good_host_def join_path_components_def trim_trailing_separator_def
        IS_DIR_SEP_def)
  have exports: "dlsym good_host (Some 1) ''BackgroundWorkerMain'' = Some 7"
    by (simp add: good_host_def)
  have returns: "entry_returns good_host 7 5"
    by (simp add: good_host_def)
  from entry_invoked_once_then_closed [OF loads exports, of 5] loads exports returns
  show ?thesis by simp
qed

section \<open>The worker descriptor\<close>

text \<open>
  C4. Whatever was submitted before, \<^verbatim>\<open>_PG_init\<close> of either build submits one descriptor
  to the host, and always the same one: restart time \<^verbatim>\<open>BGW_NEVER_RESTART\<close>, start time
  \<^verbatim>\<open>BgWorkerStart_RecoveryFinished\<close>, the flag \<^verbatim>\<open>BGWORKER_SHMEM_ACCESS\<close>, library name
  \<open>ferretdb_loader\<close> and function name \<open>background_main\<close>. The function takes no input
  that could change a field; the names are stored whole as soon as the host's name buffers
  hold 16 bytes.
\<close>

theorem worker_descriptor_is_fixed:
  assumes "16 \<le> BGW_MAXLEN"
  shows
  "PG_init_bw BGW_MAXLEN submitted = submitted @
     [\<lparr> bgw_name = ''FerretDBLoader'', bgw_type = [],
        bgw_flags = {BGWORKER_SHMEM_ACCESS},
        bgw_start_time = BgWorkerStart_RecoveryFinished,
        bgw_restart_time = BGW_NEVER_RESTART,
        bgw_library_name = ''ferretdb_loader'',
        bgw_function_name = ''background_main'',
        bgw_main_arg = 0, bgw_extra = [], bgw_notify_pid = 0 \<rparr>]
   \<and> PG_init_ext BGW_MAXLEN submitted = PG_init_bw BGW_MAXLEN submitted"
  using assms
  by (simp add: PG_init_bw_def PG_init_ext_def zeroed_worker_def snprintf_def Let_def)

theorem worker_descriptor_is_fixed_witness:
  "(16::nat) \<le> 96
   \<and> map bgw_restart_time (PG_init_bw 96 []) = [BGW_NEVER_RESTART]
   \<and> map bgw_start_time (PG_init_bw 96 []) = [BgWorkerStart_RecoveryFinished]
   \<and> map bgw_flags (PG_init_bw 96 []) = [{BGWORKER_SHMEM_ACCESS}]
   \<and> map bgw_library_name (PG_init_bw 96 []) = [''ferretdb_loader'']
   \<and> map bgw_function_name (PG_init_bw 96 []) = [''background_main'']
   \<and> PG_init_ext 96 [] = PG_init_bw 96 []"
proof -
  have big: "(16::nat) \<le> 96" by simp
  from worker_descriptor_is_fixed [OF big, of "[]"] big show ?thesis
    by simp
qed

section \<open>The two builds side by side\<close>

text \<open>
  C9, as stated: the runs of the two builds differ in the exit status and in the log
  severity only. This fails: on the example host the two runs, with exit status and
  severity blanked out, still differ, in the wording of the log line.
\<close>

theorem builds_differ_beyond_exit_and_severity:
  "modulo_exit_and_severity (background_main_bw good_host 0)
     \<noteq> modulo_exit_and_severity (background_main_ext good_host 0)"
  by (simp add: modulo_exit_and_severity_def background_main_bw_def background_main_ext_def
      Let_def good_host_def fmt_bw_def fmt_ext_def)

text \<open>
  C9, amended. On every host and every start argument, the runs of the two builds make
  the same calls in the same order and end the same way, up to three constants of the
  build: the exit status on the path where the entry point returns (0 in ferretdb-bw,
  2 in ferretdb-extension), the severity of the log line (\<^verbatim>\<open>LOG\<close>, \<^verbatim>\<open>DEBUG1\<close>) and the
  wording of the log line (its format string). The path the log line names is the same
  in both.
\<close>

theorem builds_agree_up_to_exit_severity_and_wording:
  "modulo_exit_severity_and_wording (background_main_bw env main_arg)
     = modulo_exit_severity_and_wording (background_main_ext env main_arg)
   \<and> filter is_elog (fst (background_main_bw env main_arg)) =
       [Elog LOG fmt_bw (join_path_components (pkglib_path env) ''ferretdb.so'')]
   \<and> filter is_elog (fst (background_main_ext env main_arg)) =
       [Elog DEBUG1 fmt_ext (join_path_components (pkglib_path env) ''ferretdb.so'')]
   \<and> snd (background_main_bw env main_arg)
       \<in> {Exited 0, Undefined_Null_Call, Entry_Never_Returned, Killed_In_Dlclose}
   \<and> snd (background_main_ext env main_arg)
       \<in> {Exited 2, Undefined_Null_Call, Entry_Never_Returned, Killed_In_Dlclose}"
  by (simp add: modulo_exit_severity_and_wording_def background_main_bw_def
      background_main_ext_def Let_def ferretdb_so_def ferretdb_lib_def
      split: option.split)

theorem builds_agree_up_to_exit_severity_and_wording_witness:
  "modulo_exit_severity_and_wording (background_main_bw good_host 0)
     = modulo_exit_severity_and_wording (background_main_ext good_host 0)
   \<and> snd (background_main_bw good_host 0) = Exited 0
   \<and> snd (background_main_ext good_host 0) = Exited 2"
proof -
  have bw: "snd (background_main_bw good_host 0) = Exited 0"
    by (simp add: background_main_bw_def Let_def good_host_def ferretdb_so_def
        join_path_components_def trim_trailing_separator_def IS_DIR_SEP_def)
  have ext: "snd (background_main_ext good_host 0) = Exited 2"
    by (simp add: background_main_ext_def Let_def good_host_def ferretdb_lib_def
        join_path_components_def trim_trailing_separator_def IS_DIR_SEP_def)
  from builds_agree_up_to_exit_severity_and_wording [of good_host 0] bw ext
  show ?thesis by simp
qed

section \<open>The unchecked results of the dynamic loader\<close>

text \<open>
  C1 asks that a run in which the library lacks the entry symbol never calls the null
  pointer. The source calls through the result of \<^verbatim>\<open>dlsym\<close> without a test: on a host
  whose library loads (handle 1) and does not export \<open>BackgroundWorkerMain\<close>, the run of
  either build looks the symbol up, gets the null pointer, and calls through it.
\<close>

theorem missing_symbol_null_pointer_called:
  "background_main_bw missing_symbol_host 0 =
     ([UnblockSignals, Palloc 24, JoinPathComponents ''/opt/pg/lib'' ''ferretdb.so'',
       Elog LOG fmt_bw ''/opt/pg/lib/ferretdb.so'',
       Dlopen ''/opt/pg/lib/ferretdb.so'' {RTLD_NOW, RTLD_GLOBAL}, Pfree,
       Dlsym (Some 1) ''BackgroundWorkerMain'', Invoke None 0],
      Undefined_Null_Call)
   \<and> background_main_ext missing_symbol_host 0 =
     ([UnblockSignals, Palloc 24, JoinPathComponents ''/opt/pg/lib'' ''ferretdb.so'',
       Elog DEBUG1 fmt_ext ''/opt/pg/lib/ferretdb.so'',
       Dlopen ''/opt/pg/lib/ferretdb.so'' {RTLD_NOW, RTLD_GLOBAL}, Pfree,
       Dlsym (Some 1) ''BackgroundWorkerMain'', Invoke None 0],
      Undefined_Null_Call)"
  by (simp add: background_main_bw_def background_main_ext_def Let_def
      missing_symbol_host_def ferretdb_so_def ferretdb_lib_def
      join_path_components_def trim_trailing_separator_def IS_DIR_SEP_def)

text \<open>
  C2 asks that a run in which the load fails makes no symbol lookup and no call on the
  failed handle. The source uses the result of \<^verbatim>\<open>dlopen\<close> without a test: on a host where
  the file is missing, the run of either build hands the null handle to \<^verbatim>\<open>dlsym\<close> and
  calls through what comes back. Where that is the null pointer the run ends in the null
  call. Where the lookup on the null handle finds a function (\<^verbatim>\<open>NULL\<close> standing for the
  default scope), that function is invoked with the start argument, and the null handle
  then goes to \<^verbatim>\<open>dlclose\<close>, where the process is killed.
\<close>

theorem failed_load_still_looks_up_and_calls:
  "background_main_bw missing_file_host 0 =
     ([UnblockSignals, Palloc 24, JoinPathComponents ''/opt/pg/lib'' ''ferretdb.so'',
       Elog LOG fmt_bw ''/opt/pg/lib/ferretdb.so'',
       Dlopen ''/opt/pg/lib/ferretdb.so'' {RTLD_NOW, RTLD_GLOBAL}, Pfree,
       Dlsym None ''BackgroundWorkerMain'', Invoke None 0],
      Undefined_Null_Call)
   \<and> background_main_ext missing_file_host 0 =
     ([UnblockSignals, Palloc 24, JoinPathComponents ''/opt/pg/lib'' ''ferretdb.so'',
       Elog DEBUG1 fmt_ext ''/opt/pg/lib/ferretdb.so'',
       Dlopen ''/opt/pg/lib/ferretdb.so'' {RTLD_NOW, RTLD_GLOBAL}, Pfree,
       Dlsym None ''BackgroundWorkerMain'', Invoke None 0],
      Undefined_Null_Call)
   \<and> background_main_bw default_scope_host 0 =
     ([UnblockSignals, Palloc 24, JoinPathComponents ''/opt/pg/lib'' ''ferretdb.so'',
       Elog LOG fmt_bw ''/opt/pg/lib/ferretdb.so'',
       Dlopen ''/opt/pg/lib/ferretdb.so'' {RTLD_NOW, RTLD_GLOBAL}, Pfree,
       Dlsym None ''BackgroundWorkerMain'', Invoke (Some 9) 0,
       Dlclose None],
      Killed_In_Dlclose)
   \<and> background_main_ext default_scope_host 0 =
     ([UnblockSignals, Palloc 24, JoinPathComponents ''/opt/pg/lib'' ''ferretdb.so'',
       Elog DEBUG1 fmt_ext ''/opt/pg/lib/ferretdb.so'',
       Dlopen ''/opt/pg/lib/ferretdb.so'' {RTLD_NOW, RTLD_GLOBAL}, Pfree,
       Dlsym None ''BackgroundWorkerMain'', Invoke (Some 9) 0,
       Dlclose None],
      Killed_In_Dlclose)"
  by (simp add: background_main_bw_def background_main_ext_def Let_def
      missing_file_host_def default_scope_host_def dlclose_returns_def
      ferretdb_so_def ferretdb_lib_def
      join_path_components_def trim_trailing_separator_def IS_DIR_SEP_def)

end
